theory Spec2Isabelle
  imports Complex_Main "HOL-Library.Word" "HOL-Library.Sublist"
begin

section \<open>Shared sub-documents (commons.go)\<close>

text \<open>
  Go strings and byte slices are sequences of bytes; an Isabelle \<open>char\<close> is one byte, so
  both are character lists. A Go slice that the source compares with \<open>nil\<close> is an optional
  list: \<open>None\<close> is the nil slice, \<open>Some []\<close> an empty one that is not nil. A nullable
  pointer to a struct is an optional record. Go's \<open>int\<close> is taken at 64 bits; the source
  only compares such values for equality.
\<close>

type_synonym bytes = "char list"

type_synonym 'a slice = "'a list option"

type_synonym go_int = "64 word"

record LangStringItem =
  Value :: string
  Lang :: string

type_synonym LangString = "LangStringItem slice"

fun Get_range :: "LangStringItem list \<Rightarrow> string \<Rightarrow> string" where
  "Get_range [] lang = ''''"
| "Get_range (item # rest) lang =
     (if Lang item = lang then Value item else Get_range rest lang)"

definition Get :: "LangString \<Rightarrow> string \<Rightarrow> string" where
  "Get ls lang = (case ls of None \<Rightarrow> '''' | Some items \<Rightarrow> Get_range items lang)"

record Ref =
  Ref_UUID :: string
  Ref_Type :: string
  Ref_URI :: string
  Ref_Version :: string
  Ref_Name :: LangString

record Class =
  Level :: go_int
  Class_ID :: string
  Class_Name :: string

record Classification =
  Classification_Name :: string
  Classes :: "Class slice"

text \<open>
  \<open>GetClass\<close> returns the pointer \<open>&c.Classes[i]\<close>. A pointer into the slice is the index
  \<open>i\<close> of the slot it addresses; \<open>None\<close> is the nil pointer. The loop carries the index the
  way \<open>for i, class := range\<close> does.
\<close>

fun GetClass_range :: "nat \<Rightarrow> Class list \<Rightarrow> go_int \<Rightarrow> nat option" where
  "GetClass_range i [] level = None"
| "GetClass_range i (class # rest) level =
     (if Level class = level then Some i else GetClass_range (Suc i) rest level)"

definition GetClass :: "Classification option \<Rightarrow> go_int \<Rightarrow> nat option" where
  "GetClass c level =
     (case c of
        None \<Rightarrow> None
      | Some cl \<Rightarrow>
          (case Classes cl of
             None \<Rightarrow> None
           | Some classes \<Rightarrow> GetClass_range 0 classes level))"

section \<open>Flow data sets (flow.go)\<close>

record FlowName =
  BaseName :: LangString
  Treatment :: LangString
  MixAndLocation :: LangString
  Properties :: LangString

record FlowInfo =
  UUID :: string
  FlowInfo_Name :: "FlowName option"
  Synonyms :: LangString
  Classifications :: "Classification slice"
  CAS :: string
  Comment :: LangString

record FlowPublication =
  Version :: string

text \<open>
  \<open>Mean\<close> is a \<open>float64\<close> in the source. It is only stored, never computed with, and stands
  here as a real number.
\<close>

record FlowPropertyRef =
  ID :: go_int
  FlowProperty :: "Ref option"
  Mean :: real
  FlowPropertyRef_Comment :: LangString

record Flow =
  XMLName :: "string \<times> string"
  Info :: "FlowInfo option"
  ReferenceFlowPropertyID :: go_int
  Type :: string
  Publication :: "FlowPublication option"
  FlowProperties :: "FlowPropertyRef slice"

fun ReferenceFlowProperty_range :: "nat \<Rightarrow> FlowPropertyRef list \<Rightarrow> go_int \<Rightarrow> nat option" where
  "ReferenceFlowProperty_range i [] refID = None"
| "ReferenceFlowProperty_range i (ref # rest) refID =
     (if ID ref = refID then Some i else ReferenceFlowProperty_range (Suc i) rest refID)"

definition ReferenceFlowProperty :: "Flow option \<Rightarrow> nat option" where
  "ReferenceFlowProperty f =
     (case f of
        None \<Rightarrow> None
      | Some fl \<Rightarrow>
          (case FlowProperties fl of
             None \<Rightarrow> None
           | Some props \<Rightarrow> ReferenceFlowProperty_range 0 props (ReferenceFlowPropertyID fl)))"

definition empty_Flow :: Flow where
  "empty_Flow =
     \<lparr>XMLName = ('''', ''''), Info = None, ReferenceFlowPropertyID = 0, Type = '''',
      Publication = None, FlowProperties = None\<rparr>"

section \<open>The package reader (archive facade)\<close>

subsection \<open>Library functions the reader calls\<close>

text \<open>
  \<open>strings.HasPrefix\<close>, \<open>strings.Contains\<close> and \<open>strings.HasSuffix\<close> of the Go standard
  library, on byte strings, by what they compute: whether the second string is a prefix,
  a contiguous part, a suffix of the first.
\<close>

fun HasPrefix :: "string \<Rightarrow> string \<Rightarrow> bool" where
  "HasPrefix s [] = True"
| "HasPrefix [] (p # ps) = False"
| "HasPrefix (c # cs) (p # ps) = (c = p \<and> HasPrefix cs ps)"

fun Contains :: "string \<Rightarrow> string \<Rightarrow> bool" where
  "Contains [] substr = (substr = [])"
| "Contains (c # cs) substr = (HasPrefix (c # cs) substr \<or> Contains cs substr)"

definition HasSuffix :: "string \<Rightarrow> string \<Rightarrow> bool" where
  "HasSuffix s suff = HasPrefix (rev s) (rev suff)"

text \<open>
  Modelled from the spec: the declaration of \<open>ErrDataSetNotFound\<close> is outside the files
  at hand. It is the not-found error of the specification, a sentinel value of the
  package itself and so distinct from every error a library returns. The errors of
  \<open>archive/zip\<close> and \<open>io\<close> and those of \<open>encoding/xml\<close> are values of those libraries
  and carry their message.
\<close>

datatype error = ErrDataSetNotFound | IOError string | XMLError string

text \<open>
  An entry of the archive (\<open>zip.File\<close>): its path, and what reading it gives. \<open>Open\<close> is
  \<open>Inl msg\<close> when \<open>file.Open()\<close> fails, and \<open>Inr (data, err)\<close> when it succeeds and
  \<open>ioutil.ReadAll\<close> on the stream returns \<open>data\<close> and \<open>err\<close>. Reading an entry twice gives
  the same result. A nil byte slice is the empty list: the source never tests one for nil.
\<close>

record zip_File =
  Name :: string
  Open :: "string + bytes \<times> string option"

record zip_ReadCloser =
  File :: "zip_File list"

record ZipReader =
  r :: "zip_ReadCloser option"

text \<open>
  A call either returns or panics. The only panic of the reader is the nil dereference
  \<open>r.r.File\<close> when the handle \<open>r.r\<close> is nil.
\<close>

datatype 'a outcome = Panic | Return 'a

text \<open>
  \<open>xml.Unmarshal(data, ds)\<close> writes into \<open>ds\<close> and returns an error or nil. The decoder is a
  parameter of every operation that decodes: it takes the bytes and the value \<open>ds\<close> points
  to, and returns the value after the call and the error message, if any.
\<close>

type_synonym 'a Unmarshal = "bytes \<Rightarrow> 'a \<Rightarrow> 'a \<times> string option"

subsection \<open>Opening\<close>

text \<open>
  \<open>zip.OpenReader\<close> is a parameter: it returns a handle and an error, the handle nil
  when the file cannot be opened. \<open>NewZipReader\<close> wraps the handle, whatever it is, in a
  fresh reader and passes the error on.
\<close>

definition NewZipReader ::
  "(string \<Rightarrow> zip_ReadCloser option \<times> string option) \<Rightarrow> string \<Rightarrow> ZipReader \<times> error option" where
  "NewZipReader zip_OpenReader filePath =
     (case zip_OpenReader filePath of
        (rc, err) \<Rightarrow> (\<lparr>r = rc\<rparr>, map_option IOError err))"

subsection \<open>Reading and decoding one entry\<close>

definition readData :: "zip_File \<Rightarrow> bytes \<times> error option" where
  "readData file =
     (case Open file of
        Inl err \<Rightarrow> ([], Some (IOError err))
      | Inr (data, err) \<Rightarrow> (data, map_option IOError err))"

definition unmarshal :: "'a Unmarshal \<Rightarrow> zip_File \<Rightarrow> 'a \<Rightarrow> 'a \<times> error option" where
  "unmarshal xml_Unmarshal file ds =
     (case readData file of
        (data, Some err) \<Rightarrow> (ds, Some err)
      | (data, None) \<Rightarrow>
          (case xml_Unmarshal data ds of (ds', err) \<Rightarrow> (ds', map_option XMLError err)))"

subsection \<open>Lookup by UUID\<close>

fun findXML_range :: "zip_File list \<Rightarrow> string \<Rightarrow> string \<Rightarrow> zip_File option" where
  "findXML_range [] path uuid = None"
| "findXML_range (f # fs) path uuid =
     (if \<not> Contains (Name f) path then findXML_range fs path uuid
      else if \<not> HasSuffix (Name f) ''.xml'' then findXML_range fs path uuid
      else if Contains (Name f) uuid then Some f
      else findXML_range fs path uuid)"

definition findXML :: "ZipReader \<Rightarrow> string \<Rightarrow> string \<Rightarrow> zip_File option outcome" where
  "findXML zr path uuid =
     (case r zr of
        None \<Rightarrow> Panic
      | Some rc \<Rightarrow> Return (findXML_range (File rc) path uuid))"

definition xmlData :: "ZipReader \<Rightarrow> string \<Rightarrow> string \<Rightarrow> (bytes \<times> error option) outcome" where
  "xmlData zr path uuid =
     (case findXML zr path uuid of
        Panic \<Rightarrow> Panic
      | Return None \<Rightarrow> Return ([], Some ErrDataSetNotFound)
      | Return (Some file) \<Rightarrow> Return (readData file))"

text \<open>
  The typed getters return a pointer to the data set and an error. The struct declarations
  of \<open>Process\<close> and \<open>FlowProperty\<close> are outside the files at hand: their type is a type
  variable, and the zero value \<open>&Process{}\<close> (\<open>&FlowProperty{}\<close>) is a parameter.
\<close>

definition GetProcess ::
  "'p Unmarshal \<Rightarrow> 'p \<Rightarrow> ZipReader \<Rightarrow> string \<Rightarrow> ('p option \<times> error option) outcome" where
  "GetProcess xml_Unmarshal empty_Process zr uuid =
     (case findXML zr ''processes'' uuid of
        Panic \<Rightarrow> Panic
      | Return None \<Rightarrow> Return (None, Some ErrDataSetNotFound)
      | Return (Some file) \<Rightarrow>
          (case unmarshal xml_Unmarshal file empty_Process of
             (p, err) \<Rightarrow> Return (Some p, err)))"

definition GetProcessData :: "ZipReader \<Rightarrow> string \<Rightarrow> (bytes \<times> error option) outcome" where
  "GetProcessData zr uuid = xmlData zr ''processes'' uuid"

definition GetFlow ::
  "Flow Unmarshal \<Rightarrow> ZipReader \<Rightarrow> string \<Rightarrow> (Flow option \<times> error option) outcome" where
  "GetFlow xml_Unmarshal zr uuid =
     (case findXML zr ''flows'' uuid of
        Panic \<Rightarrow> Panic
      | Return None \<Rightarrow> Return (None, Some ErrDataSetNotFound)
      | Return (Some file) \<Rightarrow>
          (case unmarshal xml_Unmarshal file empty_Flow of
             (f, err) \<Rightarrow> Return (Some f, err)))"

definition GetFlowData :: "ZipReader \<Rightarrow> string \<Rightarrow> (bytes \<times> error option) outcome" where
  "GetFlowData zr uuid = xmlData zr ''flows'' uuid"

definition GetFlowProperty ::
  "'q Unmarshal \<Rightarrow> 'q \<Rightarrow> ZipReader \<Rightarrow> string \<Rightarrow> ('q option \<times> error option) outcome" where
  "GetFlowProperty xml_Unmarshal empty_FlowProperty zr uuid =
     (case findXML zr ''flowproperties'' uuid of
        Panic \<Rightarrow> Panic
      | Return None \<Rightarrow> Return (None, Some ErrDataSetNotFound)
      | Return (Some file) \<Rightarrow>
          (case unmarshal xml_Unmarshal file empty_FlowProperty of
             (fp, err) \<Rightarrow> Return (Some fp, err)))"

definition GetFlowPropertyData :: "ZipReader \<Rightarrow> string \<Rightarrow> (bytes \<times> error option) outcome" where
  "GetFlowPropertyData zr uuid = xmlData zr ''flowproperties'' uuid"

definition GetUnitGroupData :: "ZipReader \<Rightarrow> string \<Rightarrow> (bytes \<times> error option) outcome" where
  "GetUnitGroupData zr uuid = xmlData zr ''unitgroups'' uuid"

definition GetSource :: "ZipReader \<Rightarrow> string \<Rightarrow> (bytes \<times> error option) outcome" where
  "GetSource zr uuid = xmlData zr ''sources'' uuid"

definition GetContact :: "ZipReader \<Rightarrow> string \<Rightarrow> (bytes \<times> error option) outcome" where
  "GetContact zr uuid = xmlData zr ''contacts'' uuid"

subsection \<open>Path classification\<close>

text \<open>
  Modelled from the spec: the path classifier (\<open>IsProcessPath\<close>, \<open>IsFlowPath\<close> and the
  others) is declared outside the files at hand. By the specification a path belongs to
  a type when it contains the type's folder token and ends with the XML file suffix.
\<close>

definition IsProcessPath :: "string \<Rightarrow> bool" where
  "IsProcessPath path = (Contains path ''processes'' \<and> HasSuffix path ''.xml'')"

definition IsFlowPath :: "string \<Rightarrow> bool" where
  "IsFlowPath path = (Contains path ''flows'' \<and> HasSuffix path ''.xml'')"

definition IsMethodPath :: "string \<Rightarrow> bool" where
  "IsMethodPath path = (Contains path ''methods'' \<and> HasSuffix path ''.xml'')"

definition IsFlowPropertyPath :: "string \<Rightarrow> bool" where
  "IsFlowPropertyPath path = (Contains path ''flowproperties'' \<and> HasSuffix path ''.xml'')"

definition IsUnitGroupPath :: "string \<Rightarrow> bool" where
  "IsUnitGroupPath path = (Contains path ''unitgroups'' \<and> HasSuffix path ''.xml'')"

definition IsContactPath :: "string \<Rightarrow> bool" where
  "IsContactPath path = (Contains path ''contacts'' \<and> HasSuffix path ''.xml'')"

definition IsSourcePath :: "string \<Rightarrow> bool" where
  "IsSourcePath path = (Contains path ''sources'' \<and> HasSuffix path ''.xml'')"

subsection \<open>Enumeration\<close>

text \<open>
  The seven \<open>Each...\<close> methods have the same body up to the path test and the type of the
  data set: one loop over the entries, \<open>Each_range\<close>, with the test, the decoder and the
  zero value \<open>&T{}\<close> as parameters. The handler is a Go closure: it takes the decoded data
  set and the state it closes over, and returns whether to go on and the new state.
\<close>

type_synonym ('a, 's) handler = "'a \<Rightarrow> 's \<Rightarrow> bool \<times> 's"

fun Each_range ::
  "(string \<Rightarrow> bool) \<Rightarrow> 'a Unmarshal \<Rightarrow> 'a \<Rightarrow> ('a, 's) handler \<Rightarrow> zip_File list \<Rightarrow> 's
   \<Rightarrow> error option \<times> 's" where
  "Each_range isPath xml_Unmarshal zero fn [] s = (None, s)"
| "Each_range isPath xml_Unmarshal zero fn (f # fs) s =
     (if isPath (Name f) then
        (case unmarshal xml_Unmarshal f zero of
           (ds, Some err) \<Rightarrow> (Some err, s)
         | (ds, None) \<Rightarrow>
             (case fn ds s of
                (continue, s') \<Rightarrow>
                  if \<not> continue then (None, s')
                  else Each_range isPath xml_Unmarshal zero fn fs s'))
      else Each_range isPath xml_Unmarshal zero fn fs s)"

definition Each ::
  "(string \<Rightarrow> bool) \<Rightarrow> 'a Unmarshal \<Rightarrow> 'a \<Rightarrow> ('a, 's) handler \<Rightarrow> ZipReader \<Rightarrow> 's
   \<Rightarrow> (error option \<times> 's) outcome" where
  "Each isPath xml_Unmarshal zero fn zr s =
     (case r zr of
        None \<Rightarrow> Panic
      | Some rc \<Rightarrow> Return (Each_range isPath xml_Unmarshal zero fn (File rc) s))"

definition EachProcess ::
  "'a Unmarshal \<Rightarrow> 'a \<Rightarrow> ('a, 's) handler \<Rightarrow> ZipReader \<Rightarrow> 's \<Rightarrow> (error option \<times> 's) outcome" where
  "EachProcess xml_Unmarshal empty_Process handler zr s =
     Each IsProcessPath xml_Unmarshal empty_Process handler zr s"

definition EachFlow ::
  "Flow Unmarshal \<Rightarrow> (Flow, 's) handler \<Rightarrow> ZipReader \<Rightarrow> 's \<Rightarrow> (error option \<times> 's) outcome" where
  "EachFlow xml_Unmarshal fn zr s = Each IsFlowPath xml_Unmarshal empty_Flow fn zr s"

definition EachMethod ::
  "'a Unmarshal \<Rightarrow> 'a \<Rightarrow> ('a, 's) handler \<Rightarrow> ZipReader \<Rightarrow> 's \<Rightarrow> (error option \<times> 's) outcome" where
  "EachMethod xml_Unmarshal empty_Method fn zr s =
     Each IsMethodPath xml_Unmarshal empty_Method fn zr s"

definition EachFlowProperty ::
  "'a Unmarshal \<Rightarrow> 'a \<Rightarrow> ('a, 's) handler \<Rightarrow> ZipReader \<Rightarrow> 's \<Rightarrow> (error option \<times> 's) outcome" where
  "EachFlowProperty xml_Unmarshal empty_FlowProperty fn zr s =
     Each IsFlowPropertyPath xml_Unmarshal empty_FlowProperty fn zr s"

definition EachUnitGroup ::
  "'a Unmarshal \<Rightarrow> 'a \<Rightarrow> ('a, 's) handler \<Rightarrow> ZipReader \<Rightarrow> 's \<Rightarrow> (error option \<times> 's) outcome" where
  "EachUnitGroup xml_Unmarshal empty_UnitGroup fn zr s =
     Each IsUnitGroupPath xml_Unmarshal empty_UnitGroup fn zr s"

definition EachContact ::
  "'a Unmarshal \<Rightarrow> 'a \<Rightarrow> ('a, 's) handler \<Rightarrow> ZipReader \<Rightarrow> 's \<Rightarrow> (error option \<times> 's) outcome" where
  "EachContact xml_Unmarshal empty_Contact fn zr s =
     Each IsContactPath xml_Unmarshal empty_Contact fn zr s"

definition EachSource ::
  "'a Unmarshal \<Rightarrow> 'a \<Rightarrow> ('a, 's) handler \<Rightarrow> ZipReader \<Rightarrow> 's \<Rightarrow> (error option \<times> 's) outcome" where
  "EachSource xml_Unmarshal empty_Source fn zr s =
     Each IsSourcePath xml_Unmarshal empty_Source fn zr s"

fun EachEntry_range ::
  "(string \<Rightarrow> bytes \<Rightarrow> 's \<Rightarrow> error option \<times> 's) \<Rightarrow> zip_File list \<Rightarrow> 's \<Rightarrow> error option \<times> 's" where
  "EachEntry_range fn [] s = (None, s)"
| "EachEntry_range fn (f # fs) s =
     (case readData f of
        (data, Some err) \<Rightarrow> (Some err, s)
      | (data, None) \<Rightarrow>
          (case fn (Name f) data s of
             (Some err, s') \<Rightarrow> (Some err, s')
           | (None, s') \<Rightarrow> EachEntry_range fn fs s'))"

definition EachEntry ::
  "(string \<Rightarrow> bytes \<Rightarrow> 's \<Rightarrow> error option \<times> 's) \<Rightarrow> ZipReader \<Rightarrow> 's
   \<Rightarrow> (error option \<times> 's) outcome" where
  "EachEntry fn zr s =
     (case r zr of
        None \<Rightarrow> Panic
      | Some rc \<Rightarrow> Return (EachEntry_range fn (File rc) s))"

section \<open>Observing a handler\<close>


text \<open>The data set an entry decodes to: what \<open>unmarshal\<close> leaves in a fresh \<open>&T{}\<close>.\<close>

definition decoded :: "'a Unmarshal \<Rightarrow> 'a \<Rightarrow> zip_File \<Rightarrow> 'a" where
  "decoded xml_Unmarshal zero f = fst (unmarshal xml_Unmarshal f zero)"

section \<open>Example data\<close>

text \<open>
  A classification with two nodes at level 1, and a flow with three flow property
  references of which two carry the internal ID 2.
\<close>

definition ex_classes :: "Class list" where
  "ex_classes =
     [\<lparr>Level = 0, Class_ID = ''1'', Class_Name = ''Emissions''\<rparr>,
      \<lparr>Level = 1, Class_ID = ''1.1'', Class_Name = ''Emissions to air''\<rparr>,
      \<lparr>Level = 1, Class_ID = ''1.2'', Class_Name = ''Emissions to water''\<rparr>]"

definition ex_props :: "FlowPropertyRef list" where
  "ex_props =
     [\<lparr>ID = 1, FlowProperty = None, Mean = 1, FlowPropertyRef_Comment = None\<rparr>,
      \<lparr>ID = 2, FlowProperty = None, Mean = 3, FlowPropertyRef_Comment = None\<rparr>,
      \<lparr>ID = 2, FlowProperty = None, Mean = 5, FlowPropertyRef_Comment = None\<rparr>]"

definition ex_flow :: "go_int \<Rightarrow> Flow" where
  "ex_flow refID = empty_Flow\<lparr>ReferenceFlowPropertyID := refID, FlowProperties := Some ex_props\<rparr>"

text \<open>
  A flow document with a given UUID and nothing else, and what \<open>encoding/xml\<close> decodes it
  to: the root element's name in \<open>XMLName\<close>, the UUID in \<open>Info\<close>, every other field left
  as it was.
\<close>

definition flow_doc :: "string \<Rightarrow> bytes" where
  "flow_doc u =
     ''<flowDataSet><flowInformation><dataSetInformation><UUID>'' @ u @
     ''</UUID></dataSetInformation></flowInformation></flowDataSet>''"

definition flow_of_doc :: "Flow \<Rightarrow> string \<Rightarrow> Flow" where
  "flow_of_doc ds u =
     ds\<lparr>XMLName := ('''', ''flowDataSet''),
        Info := Some \<lparr>UUID = u, FlowInfo_Name = None, Synonyms = None,
                       Classifications = None, CAS = '''', Comment = None\<rparr>\<rparr>"

text \<open>
  The decoder used in the examples. It stands for \<open>xml.Unmarshal\<close> on the documents the
  examples read: the flow documents for the UUIDs \<open>a1\<close>, \<open>c3\<close> and \<open>e5\<close>, decoded as above,
  and the text \<open>not xml\<close>, on which \<open>xml.Unmarshal\<close> returns the error \<open>EOF\<close> and leaves its
  target untouched. Its answer on any other input is not used.
\<close>

definition sample_Unmarshal :: "Flow Unmarshal" where
  "sample_Unmarshal data ds =
     (case find (\<lambda>u. data = flow_doc u) [''a1'', ''c3'', ''e5''] of
        Some u \<Rightarrow> (flow_of_doc ds u, None)
      | None \<Rightarrow> (ds, Some ''EOF''))"

text \<open>
  An archive. The entry \<open>flows/b2.xml\<close> holds a document whose UUID is \<open>c3\<close>; the entries
  \<open>sources/s1.xml\<close>, \<open>contacts/c1.xml\<close> and \<open>flows/d4.xml\<close> hold text that is no XML
  document.
\<close>

definition ex_entries :: "zip_File list" where
  "ex_entries =
     [\<lparr>Name = ''ILCD/sources/s1.xml'', Open = Inr (''not xml'', None)\<rparr>,
      \<lparr>Name = ''ILCD/flows/a1.xml'', Open = Inr (flow_doc ''a1'', None)\<rparr>,
      \<lparr>Name = ''ILCD/contacts/c1.xml'', Open = Inr (''not xml'', None)\<rparr>,
      \<lparr>Name = ''ILCD/flows/b2.xml'', Open = Inr (flow_doc ''c3'', None)\<rparr>,
      \<lparr>Name = ''ILCD/flows/d4.xml'', Open = Inr (''not xml'', None)\<rparr>,
      \<lparr>Name = ''ILCD/flows/e5.xml'', Open = Inr (flow_doc ''e5'', None)\<rparr>]"

definition ex_zip :: ZipReader where
  "ex_zip = \<lparr>r = Some \<lparr>File = ex_entries\<rparr>\<rparr>"



text \<open>
  Two handlers whose state counts the calls: one always goes on, the other stops at its
  second call.
\<close>

definition count_all :: "(Flow, nat) handler" where
  "count_all ds n = (True, Suc n)"


text \<open>A file system with one archive; any other path cannot be opened.\<close>

definition ex_OpenReader :: "string \<Rightarrow> zip_ReadCloser option \<times> string option" where
  "ex_OpenReader filePath =
     (if filePath = ''data.zip'' then (Some \<lparr>File = ex_entries\<rparr>, None)
      else (None, Some ''open: no such file or directory''))"

section \<open>Multi-language strings\<close>

lemma Get_range_absent:
  "\<forall>item\<in>set items. Lang item \<noteq> code \<Longrightarrow> Get_range items code = ''''"
  by (induction items) auto

lemma Get_range_first:
  "\<forall>x\<in>set pre. Lang x \<noteq> code \<Longrightarrow> Lang item = code \<Longrightarrow>
   Get_range (pre @ item # post) code = Value item"
  by (induction pre) auto

text \<open>
  C7. \<open>Get\<close> on a nil or an empty multi-language string is the empty string. On any
  sequence it is the text of the first item whose language equals the code, and the empty
  string when no item has that language. \<open>Get\<close> has no failing branch: the source ranges
  over the items and dereferences nothing.
\<close>

theorem Get_spec:
  "Get None code = '''' \<and> Get (Some []) code = '''' \<and>
   (\<forall>items. (\<forall>item\<in>set items. Lang item \<noteq> code) \<longrightarrow> Get (Some items) code = '''') \<and>
   (\<forall>pre item post. (\<forall>x\<in>set pre. Lang x \<noteq> code) \<and> Lang item = code \<longrightarrow>
      Get (Some (pre @ item # post)) code = Value item)"
  by (simp add: Get_def Get_range_absent Get_range_first)

theorem Get_spec_witness:
  "Get (Some [\<lparr>Value = ''Wasser'', Lang = ''de''\<rparr>, \<lparr>Value = ''water'', Lang = ''en''\<rparr>,
              \<lparr>Value = ''Water'', Lang = ''en''\<rparr>]) ''en'' = ''water'' \<and>
   Get (Some [\<lparr>Value = ''Wasser'', Lang = ''de''\<rparr>, \<lparr>Value = ''water'', Lang = ''en''\<rparr>]) ''fr'' = ''''"
proof -
  let ?de = "\<lparr>Value = ''Wasser'', Lang = ''de''\<rparr>"
  let ?en = "\<lparr>Value = ''water'', Lang = ''en''\<rparr>"
  let ?en2 = "\<lparr>Value = ''Water'', Lang = ''en''\<rparr>"
  have a: "(\<forall>x\<in>set [?de]. Lang x \<noteq> ''en'') \<and> Lang ?en = ''en''" by simp
  have b: "\<forall>item\<in>set [?de, ?en]. Lang item \<noteq> ''fr''" by simp
  from Get_spec [of "''en''"] a have "Get (Some ([?de] @ ?en # [?en2])) ''en'' = Value ?en"
    by blast
  moreover from Get_spec [of "''fr''"] b have "Get (Some [?de, ?en]) ''fr'' = ''''"
    by blast
  ultimately show ?thesis by simp
qed

section \<open>Classifications\<close>

lemma GetClass_range_None:
  "GetClass_range i cs level = None \<longleftrightarrow> (\<forall>c\<in>set cs. Level c \<noteq> level)"
  by (induction cs arbitrary: i) auto

lemma GetClass_range_Some:
  "GetClass_range i cs level = Some k \<Longrightarrow>
   i \<le> k \<and> k - i < length cs \<and> Level (cs ! (k - i)) = level \<and>
   (\<forall>j<k - i. Level (cs ! j) \<noteq> level)"
proof (induction cs arbitrary: i)
  case Nil
  then show ?case by simp
next
  case (Cons c cs)
  show ?case
  proof (cases "Level c = level")
    case True
    with Cons.prems show ?thesis by simp
  next
    case False
    with Cons.prems have "GetClass_range (Suc i) cs level = Some k" by simp
    from Cons.IH [OF this]
    have ih: "Suc i \<le> k" "k - Suc i < length cs" "Level (cs ! (k - Suc i)) = level"
      "\<forall>j<k - Suc i. Level (cs ! j) \<noteq> level" by auto
    from ih(1) have eq: "k - i = Suc (k - Suc i)" by simp
    have "\<forall>j<k - i. Level ((c # cs) ! j) \<noteq> level"
    proof (intro allI impI)
      fix j assume "j < k - i"
      then show "Level ((c # cs) ! j) \<noteq> level"
        using False ih(4) eq by (cases j) auto
    qed
    with ih eq show ?thesis by simp
  qed
qed

text \<open>
  C8. \<open>GetClass\<close> returns nil exactly when no class node has the level asked for, which
  includes a nil classification and a nil class list. When it returns a pointer, the
  pointer addresses a slot of the class list, the node there has that level, and no
  earlier node has it: it is the first node of that level in list order.
\<close>

theorem GetClass_spec:
  "(GetClass c level = None \<longleftrightarrow>
      \<not> (\<exists>cl cs. c = Some cl \<and> Classes cl = Some cs \<and> (\<exists>x\<in>set cs. Level x = level))) \<and>
   (\<forall>i. GetClass c level = Some i \<longrightarrow>
      (\<exists>cl cs. c = Some cl \<and> Classes cl = Some cs \<and> i < length cs \<and>
         Level (cs ! i) = level \<and> (\<forall>j<i. Level (cs ! j) \<noteq> level)))"
proof (intro conjI allI impI)
  show "GetClass c level = None \<longleftrightarrow>
      \<not> (\<exists>cl cs. c = Some cl \<and> Classes cl = Some cs \<and> (\<exists>x\<in>set cs. Level x = level))"
    by (auto simp: GetClass_def GetClass_range_None split: option.splits)
next
  fix i assume "GetClass c level = Some i"
  then obtain cl cs where c: "c = Some cl" "Classes cl = Some cs"
    and found: "GetClass_range 0 cs level = Some i"
    by (auto simp: GetClass_def split: option.splits)
  from GetClass_range_Some [OF found] c
  show "\<exists>cl cs. c = Some cl \<and> Classes cl = Some cs \<and> i < length cs \<and>
         Level (cs ! i) = level \<and> (\<forall>j<i. Level (cs ! j) \<noteq> level)"
    by simp
qed

theorem GetClass_spec_witness:
  "GetClass (Some \<lparr>Classification_Name = ''ILCD'', Classes = Some ex_classes\<rparr>) 1 = Some 1 \<and>
   Class_ID (ex_classes ! 1) = ''1.1'' \<and>
   GetClass (Some \<lparr>Classification_Name = ''ILCD'', Classes = Some ex_classes\<rparr>) 2 = None \<and>
   GetClass (Some \<lparr>Classification_Name = ''ILCD'', Classes = None\<rparr>) 1 = None \<and>
   GetClass None 1 = None"
  using GetClass_spec [of "Some \<lparr>Classification_Name = ''ILCD'', Classes = Some ex_classes\<rparr>" 1]
    GetClass_spec [of "Some \<lparr>Classification_Name = ''ILCD'', Classes = Some ex_classes\<rparr>" 2]
    GetClass_spec [of "Some \<lparr>Classification_Name = ''ILCD'', Classes = None\<rparr>" 1]
    GetClass_spec [of None 1]
  by (simp add: GetClass_def ex_classes_def)

section \<open>The reference flow property of a flow\<close>

lemma ReferenceFlowProperty_range_None:
  "ReferenceFlowProperty_range i props refID = None \<longleftrightarrow> (\<forall>p\<in>set props. ID p \<noteq> refID)"
  by (induction props arbitrary: i) auto

lemma ReferenceFlowProperty_range_Some:
  "ReferenceFlowProperty_range i props refID = Some k \<Longrightarrow>
   i \<le> k \<and> k - i < length props \<and> ID (props ! (k - i)) = refID \<and>
   (\<forall>j<k - i. ID (props ! j) \<noteq> refID)"
proof (induction props arbitrary: i)
  case Nil
  then show ?case by simp
next
  case (Cons p props)
  show ?case
  proof (cases "ID p = refID")
    case True
    with Cons.prems show ?thesis by simp
  next
    case False
    with Cons.prems have "ReferenceFlowProperty_range (Suc i) props refID = Some k" by simp
    from Cons.IH [OF this]
    have ih: "Suc i \<le> k" "k - Suc i < length props" "ID (props ! (k - Suc i)) = refID"
      "\<forall>j<k - Suc i. ID (props ! j) \<noteq> refID" by auto
    from ih(1) have eq: "k - i = Suc (k - Suc i)" by simp
    have "\<forall>j<k - i. ID ((p # props) ! j) \<noteq> refID"
    proof (intro allI impI)
      fix j assume "j < k - i"
      then show "ID ((p # props) ! j) \<noteq> refID"
        using False ih(4) eq by (cases j) auto
    qed
    with ih eq show ?thesis by simp
  qed
qed

text \<open>
  C6. \<open>ReferenceFlowProperty\<close> returns nil exactly when no entry of the flow property
  list has the internal ID that the flow declares as its reference (a nil flow and a nil
  list included). When it returns a pointer, the pointer addresses an entry of the list
  with that ID, and no earlier entry has it, however many entries the list holds. There
  is no failing branch.
\<close>

theorem ReferenceFlowProperty_spec:
  "(ReferenceFlowProperty f = None \<longleftrightarrow>
      \<not> (\<exists>fl props. f = Some fl \<and> FlowProperties fl = Some props \<and>
            (\<exists>p\<in>set props. ID p = ReferenceFlowPropertyID fl))) \<and>
   (\<forall>i. ReferenceFlowProperty f = Some i \<longrightarrow>
      (\<exists>fl props. f = Some fl \<and> FlowProperties fl = Some props \<and> i < length props \<and>
         ID (props ! i) = ReferenceFlowPropertyID fl \<and>
         (\<forall>j<i. ID (props ! j) \<noteq> ReferenceFlowPropertyID fl)))"
proof (intro conjI allI impI)
  show "ReferenceFlowProperty f = None \<longleftrightarrow>
      \<not> (\<exists>fl props. f = Some fl \<and> FlowProperties fl = Some props \<and>
            (\<exists>p\<in>set props. ID p = ReferenceFlowPropertyID fl))"
    by (auto simp: ReferenceFlowProperty_def ReferenceFlowProperty_range_None
        split: option.splits)
next
  fix i assume "ReferenceFlowProperty f = Some i"
  then obtain fl props where f: "f = Some fl" "FlowProperties fl = Some props"
    and found: "ReferenceFlowProperty_range 0 props (ReferenceFlowPropertyID fl) = Some i"
    by (auto simp: ReferenceFlowProperty_def split: option.splits)
  from ReferenceFlowProperty_range_Some [OF found] f
  show "\<exists>fl props. f = Some fl \<and> FlowProperties fl = Some props \<and> i < length props \<and>
         ID (props ! i) = ReferenceFlowPropertyID fl \<and>
         (\<forall>j<i. ID (props ! j) \<noteq> ReferenceFlowPropertyID fl)"
    by simp
qed

theorem ReferenceFlowProperty_spec_witness:
  "ReferenceFlowProperty (Some (ex_flow 2)) = Some 1 \<and>
   Mean (ex_props ! 1) = 3 \<and>
   ReferenceFlowProperty (Some (ex_flow 7)) = None \<and>
   ReferenceFlowProperty (Some empty_Flow) = None \<and>
   ReferenceFlowProperty None = None"
  using ReferenceFlowProperty_spec [of "Some (ex_flow 2)"]
    ReferenceFlowProperty_spec [of "Some (ex_flow 7)"]
    ReferenceFlowProperty_spec [of "Some empty_Flow"]
    ReferenceFlowProperty_spec [of None]
  by (simp add: ReferenceFlowProperty_def ex_flow_def ex_props_def empty_Flow_def)

section \<open>Facts about the library functions and the lookup\<close>

lemma HasPrefix_iff: "HasPrefix s p \<longleftrightarrow> prefix p s"
  by (induction s p rule: HasPrefix.induct) auto

lemma Contains_iff: "Contains s substr \<longleftrightarrow> sublist substr s"
  by (induction s) (auto simp: HasPrefix_iff sublist_Cons_right)

lemma HasSuffix_iff: "HasSuffix s suff \<longleftrightarrow> suffix suff s"
  by (simp add: HasSuffix_def HasPrefix_iff suffix_to_prefix)

lemma findXML_range_find:
  "findXML_range fs path uuid =
     find (\<lambda>f. sublist path (Name f) \<and> suffix ''.xml'' (Name f) \<and> sublist uuid (Name f)) fs"
  by (induction fs) (auto simp: Contains_iff HasSuffix_iff)

lemma findXML_range_None:
  "findXML_range fs path uuid = None \<longleftrightarrow>
     \<not> (\<exists>f\<in>set fs. sublist path (Name f) \<and> suffix ''.xml'' (Name f) \<and> sublist uuid (Name f))"
  by (auto simp: findXML_range_find find_None_iff)

lemma findXML_range_Some:
  "findXML_range fs path uuid = Some file \<longleftrightarrow>
     (\<exists>pre post. fs = pre @ file # post \<and>
        (sublist path (Name file) \<and> suffix ''.xml'' (Name file) \<and> sublist uuid (Name file)) \<and>
        (\<forall>g\<in>set pre. \<not> (sublist path (Name g) \<and> suffix ''.xml'' (Name g) \<and> sublist uuid (Name g))))"
proof (induction fs)
  case Nil
  then show ?case by simp
next
  case (Cons f fs)
  let ?m = "\<lambda>f. sublist path (Name f) \<and> suffix ''.xml'' (Name f) \<and> sublist uuid (Name f)"
  show ?case
  proof (cases "?m f")
    case True
    then have l: "findXML_range (f # fs) path uuid = Some f"
      by (simp add: Contains_iff HasSuffix_iff)
    show ?thesis
    proof
      assume "findXML_range (f # fs) path uuid = Some file"
      with l have "file = f" by simp
      with True show "\<exists>pre post. f # fs = pre @ file # post \<and> ?m file \<and> (\<forall>g\<in>set pre. \<not> ?m g)"
        by (intro exI [of _ "[]"] exI [of _ fs]) simp
    next
      assume "\<exists>pre post. f # fs = pre @ file # post \<and> ?m file \<and> (\<forall>g\<in>set pre. \<not> ?m g)"
      then obtain pre post where d: "f # fs = pre @ file # post" "\<forall>g\<in>set pre. \<not> ?m g" by blast
      with True have "pre = []" by (cases pre) auto
      with d l show "findXML_range (f # fs) path uuid = Some file" by simp
    qed
  next
    case False
    then have l: "findXML_range (f # fs) path uuid = findXML_range fs path uuid"
      by (auto simp: Contains_iff HasSuffix_iff)
    show ?thesis
    proof
      assume "findXML_range (f # fs) path uuid = Some file"
      with l Cons.IH obtain pre post where "fs = pre @ file # post" "?m file" "\<forall>g\<in>set pre. \<not> ?m g"
        by auto
      with False show "\<exists>pre post. f # fs = pre @ file # post \<and> ?m file \<and> (\<forall>g\<in>set pre. \<not> ?m g)"
        by (intro exI [of _ "f # pre"] exI [of _ post]) simp
    next
      assume "\<exists>pre post. f # fs = pre @ file # post \<and> ?m file \<and> (\<forall>g\<in>set pre. \<not> ?m g)"
      then obtain pre post where d: "f # fs = pre @ file # post" "?m file" "\<forall>g\<in>set pre. \<not> ?m g"
        by blast
      with False obtain pre' where "pre = f # pre'" by (cases pre) auto
      with d have "fs = pre' @ file # post" "\<forall>g\<in>set pre'. \<not> ?m g" by auto
      with d(2) Cons.IH l show "findXML_range (f # fs) path uuid = Some file" by auto
    qed
  qed
qed

lemma unmarshal_not_ErrDataSetNotFound:
  "snd (unmarshal dec file ds) \<noteq> Some ErrDataSetNotFound"
  by (auto simp: unmarshal_def readData_def split: sum.splits prod.splits option.splits)



lemma GetFlow_found:
  "r zr = Some rc \<Longrightarrow> findXML_range (File rc) ''flows'' u = Some file \<Longrightarrow>
   GetFlow dec zr u = Return (Some (fst (unmarshal dec file empty_Flow)), snd (unmarshal dec file empty_Flow))"
  by (simp add: GetFlow_def findXML_def split: prod.splits)

lemma GetFlow_absent:
  "r zr = Some rc \<Longrightarrow> findXML_range (File rc) ''flows'' u = None \<Longrightarrow>
   GetFlow dec zr u = Return (None, Some ErrDataSetNotFound)"
  by (simp add: GetFlow_def findXML_def)

lemma GetProcess_found:
  "r zr = Some rc \<Longrightarrow> findXML_range (File rc) ''processes'' u = Some file \<Longrightarrow>
   GetProcess dec z zr u = Return (Some (fst (unmarshal dec file z)), snd (unmarshal dec file z))"
  by (simp add: GetProcess_def findXML_def split: prod.splits)

lemma GetProcess_absent:
  "r zr = Some rc \<Longrightarrow> findXML_range (File rc) ''processes'' u = None \<Longrightarrow>
   GetProcess dec z zr u = Return (None, Some ErrDataSetNotFound)"
  by (simp add: GetProcess_def findXML_def)

lemma GetFlowProperty_found:
  "r zr = Some rc \<Longrightarrow> findXML_range (File rc) ''flowproperties'' u = Some file \<Longrightarrow>
   GetFlowProperty dec z zr u = Return (Some (fst (unmarshal dec file z)), snd (unmarshal dec file z))"
  by (simp add: GetFlowProperty_def findXML_def split: prod.splits)

lemma GetFlowProperty_absent:
  "r zr = Some rc \<Longrightarrow> findXML_range (File rc) ''flowproperties'' u = None \<Longrightarrow>
   GetFlowProperty dec z zr u = Return (None, Some ErrDataSetNotFound)"
  by (simp add: GetFlowProperty_def findXML_def)

section \<open>Facts about enumeration under a recording handler\<close>










section \<open>Facts about the example data\<close>

lemma flow_doc_inj [simp]: "flow_doc u = flow_doc v \<longleftrightarrow> u = v"
  by (simp add: flow_doc_def)

lemma flow_doc_not_xml [simp]: "''not xml'' \<noteq> flow_doc u"
  by (simp add: flow_doc_def)

lemma sample_a1: "sample_Unmarshal (flow_doc ''a1'') ds = (flow_of_doc ds ''a1'', None)"
  by (simp add: sample_Unmarshal_def)

section \<open>Lookup by UUID\<close>

text \<open>
  C3. On an opened reader, \<open>GetFlow\<close> returns \<open>ErrDataSetNotFound\<close> exactly when no entry
  of the listing has a path that contains the folder token \<open>flows\<close>, ends with \<open>.xml\<close> and
  contains the UUID, each as a substring test; and when there is no such entry it returns
  the nil pointer with \<open>ErrDataSetNotFound\<close> and no other error. The same holds for
  \<open>GetProcess\<close> with \<open>processes\<close> and for \<open>GetFlowProperty\<close> with \<open>flowproperties\<close>.
\<close>

theorem Get_not_found_iff:
  assumes "r zr = Some rc"
  shows
   "((\<exists>v. GetFlow dec zr u = Return (v, Some ErrDataSetNotFound)) \<longleftrightarrow>
       \<not> (\<exists>f\<in>set (File rc). sublist ''flows'' (Name f) \<and> suffix ''.xml'' (Name f) \<and> sublist u (Name f))) \<and>
    (\<not> (\<exists>f\<in>set (File rc). sublist ''flows'' (Name f) \<and> suffix ''.xml'' (Name f) \<and> sublist u (Name f)) \<longrightarrow>
       GetFlow dec zr u = Return (None, Some ErrDataSetNotFound)) \<and>
    ((\<exists>v. GetProcess decp zp zr u = Return (v, Some ErrDataSetNotFound)) \<longleftrightarrow>
       \<not> (\<exists>f\<in>set (File rc). sublist ''processes'' (Name f) \<and> suffix ''.xml'' (Name f) \<and> sublist u (Name f))) \<and>
    (\<not> (\<exists>f\<in>set (File rc). sublist ''processes'' (Name f) \<and> suffix ''.xml'' (Name f) \<and> sublist u (Name f)) \<longrightarrow>
       GetProcess decp zp zr u = Return (None, Some ErrDataSetNotFound)) \<and>
    ((\<exists>v. GetFlowProperty decq zq zr u = Return (v, Some ErrDataSetNotFound)) \<longleftrightarrow>
       \<not> (\<exists>f\<in>set (File rc). sublist ''flowproperties'' (Name f) \<and> suffix ''.xml'' (Name f) \<and> sublist u (Name f))) \<and>
    (\<not> (\<exists>f\<in>set (File rc). sublist ''flowproperties'' (Name f) \<and> suffix ''.xml'' (Name f) \<and> sublist u (Name f)) \<longrightarrow>
       GetFlowProperty decq zq zr u = Return (None, Some ErrDataSetNotFound))"
proof -
  have flow: "(\<exists>v. GetFlow dec zr u = Return (v, Some ErrDataSetNotFound)) \<longleftrightarrow>
      findXML_range (File rc) ''flows'' u = None"
  proof (cases "findXML_range (File rc) ''flows'' u")
    case None
    with assms show ?thesis by (simp add: GetFlow_absent)
  next
    case (Some entry)
    with assms show ?thesis
      by (simp add: GetFlow_found unmarshal_not_ErrDataSetNotFound)
  qed
  have proc: "(\<exists>v. GetProcess decp zp zr u = Return (v, Some ErrDataSetNotFound)) \<longleftrightarrow>
      findXML_range (File rc) ''processes'' u = None"
  proof (cases "findXML_range (File rc) ''processes'' u")
    case None
    with assms show ?thesis by (simp add: GetProcess_absent)
  next
    case (Some entry)
    with assms show ?thesis
      by (simp add: GetProcess_found unmarshal_not_ErrDataSetNotFound)
  qed
  have flowprop: "(\<exists>v. GetFlowProperty decq zq zr u = Return (v, Some ErrDataSetNotFound)) \<longleftrightarrow>
      findXML_range (File rc) ''flowproperties'' u = None"
  proof (cases "findXML_range (File rc) ''flowproperties'' u")
    case None
    with assms show ?thesis by (simp add: GetFlowProperty_absent)
  next
    case (Some entry)
    with assms show ?thesis
      by (simp add: GetFlowProperty_found unmarshal_not_ErrDataSetNotFound)
  qed
  show ?thesis
    unfolding flow proc flowprop findXML_range_None [symmetric]
    using assms by (simp add: GetFlow_absent GetProcess_absent GetFlowProperty_absent)
qed

theorem Get_not_found_iff_witness:
  "r ex_zip = Some \<lparr>File = ex_entries\<rparr> \<and>
   \<not> (\<exists>f\<in>set ex_entries. sublist ''flows'' (Name f) \<and> suffix ''.xml'' (Name f) \<and>
         sublist ''s1'' (Name f)) \<and>
   GetFlow sample_Unmarshal ex_zip ''s1'' = Return (None, Some ErrDataSetNotFound) \<and>
   (\<exists>f\<in>set ex_entries. sublist ''flows'' (Name f) \<and> suffix ''.xml'' (Name f) \<and>
         sublist ''d4'' (Name f)) \<and>
   \<not> (\<exists>v. GetFlow sample_Unmarshal ex_zip ''d4'' = Return (v, Some ErrDataSetNotFound))"
proof -
  have opened: "r ex_zip = Some \<lparr>File = ex_entries\<rparr>" by (simp add: ex_zip_def)
  have absent: "\<not> (\<exists>f\<in>set (File \<lparr>File = ex_entries\<rparr>). sublist ''flows'' (Name f) \<and>
      suffix ''.xml'' (Name f) \<and> sublist ''s1'' (Name f))"
    by (simp add: ex_entries_def Contains_iff [symmetric] HasSuffix_iff [symmetric] HasSuffix_def)
  have present: "\<exists>f\<in>set (File \<lparr>File = ex_entries\<rparr>). sublist ''flows'' (Name f) \<and>
      suffix ''.xml'' (Name f) \<and> sublist ''d4'' (Name f)"
    by (simp add: ex_entries_def Contains_iff [symmetric] HasSuffix_iff [symmetric] HasSuffix_def)
  note s1 = Get_not_found_iff [OF opened, of sample_Unmarshal "''s1''"]
  note d4 = Get_not_found_iff [OF opened, of sample_Unmarshal "''d4''"]
  have "GetFlow sample_Unmarshal ex_zip ''s1'' = Return (None, Some ErrDataSetNotFound)"
    by (rule s1 [THEN conjunct2, THEN conjunct1, THEN mp, OF absent])
  moreover
  have "\<not> (\<exists>v. GetFlow sample_Unmarshal ex_zip ''d4'' = Return (v, Some ErrDataSetNotFound))"
  proof
    assume "\<exists>v. GetFlow sample_Unmarshal ex_zip ''d4'' = Return (v, Some ErrDataSetNotFound)"
    from d4 [THEN conjunct1, THEN iffD1, OF this] present show False ..
  qed
  ultimately show ?thesis using opened absent present by simp
qed

lemma first_match_empty_uuid:
  assumes "\<exists>f\<in>set fs. sublist path (Name f) \<and> suffix ''.xml'' (Name f)"
  shows "\<exists>pre f post. fs = pre @ f # post \<and> sublist path (Name f) \<and> suffix ''.xml'' (Name f) \<and>
           (\<forall>g\<in>set pre. \<not> (sublist path (Name g) \<and> suffix ''.xml'' (Name g))) \<and>
           findXML_range fs path '''' = Some f"
proof -
  from assms have "findXML_range fs path '''' \<noteq> None"
    by (simp add: findXML_range_None)
  then obtain f where found: "findXML_range fs path '''' = Some f" by blast
  then obtain pre post where "fs = pre @ f # post"
    "sublist path (Name f) \<and> suffix ''.xml'' (Name f)"
    "\<forall>g\<in>set pre. \<not> (sublist path (Name g) \<and> suffix ''.xml'' (Name g))"
    unfolding findXML_range_Some by auto
  with found show ?thesis by blast
qed

text \<open>
  C10. Every string contains the empty string, so a lookup with the empty UUID never
  misses when the listing has an entry of the type: on an opened reader whose listing has
  an entry with \<open>flows\<close> in its path and the suffix \<open>.xml\<close>, \<open>GetFlow\<close> with the empty UUID
  returns what decoding the first such entry gives, and its error, if any, is not
  \<open>ErrDataSetNotFound\<close>. The same holds for \<open>GetProcess\<close> and \<open>GetFlowProperty\<close> with
  their folder tokens.
\<close>

theorem Get_empty_uuid:
  assumes "r zr = Some rc"
  shows
   "((\<exists>f\<in>set (File rc). sublist ''flows'' (Name f) \<and> suffix ''.xml'' (Name f)) \<longrightarrow>
      (\<exists>pre f post. File rc = pre @ f # post \<and>
         sublist ''flows'' (Name f) \<and> suffix ''.xml'' (Name f) \<and>
         (\<forall>g\<in>set pre. \<not> (sublist ''flows'' (Name g) \<and> suffix ''.xml'' (Name g))) \<and>
         GetFlow dec zr '''' =
           Return (Some (decoded dec empty_Flow f), snd (unmarshal dec f empty_Flow)) \<and>
         snd (unmarshal dec f empty_Flow) \<noteq> Some ErrDataSetNotFound)) \<and>
    ((\<exists>f\<in>set (File rc). sublist ''processes'' (Name f) \<and> suffix ''.xml'' (Name f)) \<longrightarrow>
      (\<exists>pre f post. File rc = pre @ f # post \<and>
         sublist ''processes'' (Name f) \<and> suffix ''.xml'' (Name f) \<and>
         (\<forall>g\<in>set pre. \<not> (sublist ''processes'' (Name g) \<and> suffix ''.xml'' (Name g))) \<and>
         GetProcess decp zp zr '''' =
           Return (Some (decoded decp zp f), snd (unmarshal decp f zp)) \<and>
         snd (unmarshal decp f zp) \<noteq> Some ErrDataSetNotFound)) \<and>
    ((\<exists>f\<in>set (File rc). sublist ''flowproperties'' (Name f) \<and> suffix ''.xml'' (Name f)) \<longrightarrow>
      (\<exists>pre f post. File rc = pre @ f # post \<and>
         sublist ''flowproperties'' (Name f) \<and> suffix ''.xml'' (Name f) \<and>
         (\<forall>g\<in>set pre. \<not> (sublist ''flowproperties'' (Name g) \<and> suffix ''.xml'' (Name g))) \<and>
         GetFlowProperty decq zq zr '''' =
           Return (Some (decoded decq zq f), snd (unmarshal decq f zq)) \<and>
         snd (unmarshal decq f zq) \<noteq> Some ErrDataSetNotFound))"
proof (intro conjI impI)
  assume "\<exists>f\<in>set (File rc). sublist ''flows'' (Name f) \<and> suffix ''.xml'' (Name f)"
  from first_match_empty_uuid [OF this] obtain pre f post where
    m: "File rc = pre @ f # post" "sublist ''flows'' (Name f)" "suffix ''.xml'' (Name f)"
      "\<forall>g\<in>set pre. \<not> (sublist ''flows'' (Name g) \<and> suffix ''.xml'' (Name g))"
    and found: "findXML_range (File rc) ''flows'' '''' = Some f"
    by blast
  have "GetFlow dec zr '''' =
      Return (Some (decoded dec empty_Flow f), snd (unmarshal dec f empty_Flow))"
    using GetFlow_found [OF assms found] by (simp add: decoded_def)
  with m unmarshal_not_ErrDataSetNotFound [of dec f empty_Flow]
  show "\<exists>pre f post. File rc = pre @ f # post \<and>
         sublist ''flows'' (Name f) \<and> suffix ''.xml'' (Name f) \<and>
         (\<forall>g\<in>set pre. \<not> (sublist ''flows'' (Name g) \<and> suffix ''.xml'' (Name g))) \<and>
         GetFlow dec zr '''' =
           Return (Some (decoded dec empty_Flow f), snd (unmarshal dec f empty_Flow)) \<and>
         snd (unmarshal dec f empty_Flow) \<noteq> Some ErrDataSetNotFound"
    by blast
next
  assume "\<exists>f\<in>set (File rc). sublist ''processes'' (Name f) \<and> suffix ''.xml'' (Name f)"
  from first_match_empty_uuid [OF this] obtain pre f post where
    m: "File rc = pre @ f # post" "sublist ''processes'' (Name f)" "suffix ''.xml'' (Name f)"
      "\<forall>g\<in>set pre. \<not> (sublist ''processes'' (Name g) \<and> suffix ''.xml'' (Name g))"
    and found: "findXML_range (File rc) ''processes'' '''' = Some f"
    by blast
  have "GetProcess decp zp zr '''' =
      Return (Some (decoded decp zp f), snd (unmarshal decp f zp))"
    using GetProcess_found [OF assms found] by (simp add: decoded_def)
  with m unmarshal_not_ErrDataSetNotFound [of decp f zp]
  show "\<exists>pre f post. File rc = pre @ f # post \<and>
         sublist ''processes'' (Name f) \<and> suffix ''.xml'' (Name f) \<and>
         (\<forall>g\<in>set pre. \<not> (sublist ''processes'' (Name g) \<and> suffix ''.xml'' (Name g))) \<and>
         GetProcess decp zp zr '''' =
           Return (Some (decoded decp zp f), snd (unmarshal decp f zp)) \<and>
         snd (unmarshal decp f zp) \<noteq> Some ErrDataSetNotFound"
    by blast
next
  assume "\<exists>f\<in>set (File rc). sublist ''flowproperties'' (Name f) \<and> suffix ''.xml'' (Name f)"
  from first_match_empty_uuid [OF this] obtain pre f post where
    m: "File rc = pre @ f # post" "sublist ''flowproperties'' (Name f)" "suffix ''.xml'' (Name f)"
      "\<forall>g\<in>set pre. \<not> (sublist ''flowproperties'' (Name g) \<and> suffix ''.xml'' (Name g))"
    and found: "findXML_range (File rc) ''flowproperties'' '''' = Some f"
    by blast
  have "GetFlowProperty decq zq zr '''' =
      Return (Some (decoded decq zq f), snd (unmarshal decq f zq))"
    using GetFlowProperty_found [OF assms found] by (simp add: decoded_def)
  with m unmarshal_not_ErrDataSetNotFound [of decq f zq]
  show "\<exists>pre f post. File rc = pre @ f # post \<and>
         sublist ''flowproperties'' (Name f) \<and> suffix ''.xml'' (Name f) \<and>
         (\<forall>g\<in>set pre. \<not> (sublist ''flowproperties'' (Name g) \<and> suffix ''.xml'' (Name g))) \<and>
         GetFlowProperty decq zq zr '''' =
           Return (Some (decoded decq zq f), snd (unmarshal decq f zq)) \<and>
         snd (unmarshal decq f zq) \<noteq> Some ErrDataSetNotFound"
    by blast
qed

theorem Get_empty_uuid_witness:
  "r ex_zip = Some \<lparr>File = ex_entries\<rparr> \<and>
   (\<exists>f\<in>set ex_entries. sublist ''flows'' (Name f) \<and> suffix ''.xml'' (Name f)) \<and>
   GetFlow sample_Unmarshal ex_zip '''' = Return (Some (flow_of_doc empty_Flow ''a1''), None)"
proof -
  have opened: "r ex_zip = Some \<lparr>File = ex_entries\<rparr>" by (simp add: ex_zip_def)
  have present: "\<exists>f\<in>set (File \<lparr>File = ex_entries\<rparr>). sublist ''flows'' (Name f) \<and>
      suffix ''.xml'' (Name f)"
    by (simp add: ex_entries_def Contains_iff [symmetric] HasSuffix_iff [symmetric] HasSuffix_def)
  from Get_empty_uuid [OF opened, of sample_Unmarshal, THEN conjunct1, THEN mp, OF present]
  obtain pre f post where
    "GetFlow sample_Unmarshal ex_zip '''' =
       Return (Some (decoded sample_Unmarshal empty_Flow f), snd (unmarshal sample_Unmarshal f empty_Flow))"
    by (elim exE conjE)
  moreover have "GetFlow sample_Unmarshal ex_zip '''' =
      Return (Some (flow_of_doc empty_Flow ''a1''), None)"
    by (simp add: GetFlow_def findXML_def ex_zip_def ex_entries_def HasSuffix_def unmarshal_def
        readData_def sample_a1)
  ultimately show ?thesis using opened present by simp
qed

section \<open>Typed and raw getters\<close>











section \<open>Opening the archive\<close>

text \<open>
  C9. \<open>NewZipReader\<close> hands the error of the open to its caller as it is, together with
  a reader around the handle. When the archive cannot be opened the handle is nil, and
  then no lookup and no enumeration on the reader returns: each one dereferences the nil
  handle and panics. With a handle, each of them returns. So an operation that returns
  needs a reader whose open succeeded.
\<close>

theorem NewZipReader_open_error:
  assumes "NewZipReader zip_OpenReader filePath = (zr, err)"
  shows
   "r zr = fst (zip_OpenReader filePath) \<and>
    err = map_option IOError (snd (zip_OpenReader filePath)) \<and>
    (\<forall>msg. zip_OpenReader filePath = (None, Some msg) \<longrightarrow>
       err = Some (IOError msg) \<and> r zr = None) \<and>
    (r zr = None \<longrightarrow>
       GetProcess decp zp zr u = Panic \<and> GetProcessData zr u = Panic \<and>
       GetFlow dec zr u = Panic \<and> GetFlowData zr u = Panic \<and>
       GetFlowProperty decq zq zr u = Panic \<and> GetFlowPropertyData zr u = Panic \<and>
       GetUnitGroupData zr u = Panic \<and> GetSource zr u = Panic \<and> GetContact zr u = Panic \<and>
       EachProcess deca za fna zr sa = Panic \<and> EachFlow decb fnb zr sb = Panic \<and>
       EachMethod decc zc fnc zr sc = Panic \<and> EachFlowProperty decd zd fnd zr sd = Panic \<and>
       EachUnitGroup dece ze fne zr se = Panic \<and> EachContact decf zf fnf zr sf = Panic \<and>
       EachSource decg zg fng zr sg = Panic \<and> EachEntry fnh zr sh = Panic) \<and>
    (r zr \<noteq> None \<longrightarrow>
       GetProcess decp zp zr u \<noteq> Panic \<and> GetProcessData zr u \<noteq> Panic \<and>
       GetFlow dec zr u \<noteq> Panic \<and> GetFlowData zr u \<noteq> Panic \<and>
       GetFlowProperty decq zq zr u \<noteq> Panic \<and> GetFlowPropertyData zr u \<noteq> Panic \<and>
       GetUnitGroupData zr u \<noteq> Panic \<and> GetSource zr u \<noteq> Panic \<and> GetContact zr u \<noteq> Panic \<and>
       EachProcess deca za fna zr sa \<noteq> Panic \<and> EachFlow decb fnb zr sb \<noteq> Panic \<and>
       EachMethod decc zc fnc zr sc \<noteq> Panic \<and> EachFlowProperty decd zd fnd zr sd \<noteq> Panic \<and>
       EachUnitGroup dece ze fne zr se \<noteq> Panic \<and> EachContact decf zf fnf zr sf \<noteq> Panic \<and>
       EachSource decg zg fng zr sg \<noteq> Panic \<and> EachEntry fnh zr sh \<noteq> Panic)"
proof -
  from assms have res: "r zr = fst (zip_OpenReader filePath)"
    "err = map_option IOError (snd (zip_OpenReader filePath))"
    by (auto simp: NewZipReader_def split: prod.splits)
  have failed: "\<forall>msg. zip_OpenReader filePath = (None, Some msg) \<longrightarrow>
       err = Some (IOError msg) \<and> r zr = None"
    using res by simp
  have nil: "r zr = None \<longrightarrow>
       GetProcess decp zp zr u = Panic \<and> GetProcessData zr u = Panic \<and>
       GetFlow dec zr u = Panic \<and> GetFlowData zr u = Panic \<and>
       GetFlowProperty decq zq zr u = Panic \<and> GetFlowPropertyData zr u = Panic \<and>
       GetUnitGroupData zr u = Panic \<and> GetSource zr u = Panic \<and> GetContact zr u = Panic \<and>
       EachProcess deca za fna zr sa = Panic \<and> EachFlow decb fnb zr sb = Panic \<and>
       EachMethod decc zc fnc zr sc = Panic \<and> EachFlowProperty decd zd fnd zr sd = Panic \<and>
       EachUnitGroup dece ze fne zr se = Panic \<and> EachContact decf zf fnf zr sf = Panic \<and>
       EachSource decg zg fng zr sg = Panic \<and> EachEntry fnh zr sh = Panic"
    by (simp add: GetProcess_def GetProcessData_def GetFlow_def GetFlowData_def
        GetFlowProperty_def GetFlowPropertyData_def GetUnitGroupData_def GetSource_def
        GetContact_def xmlData_def findXML_def EachProcess_def EachFlow_def EachMethod_def
        EachFlowProperty_def EachUnitGroup_def EachContact_def EachSource_def Each_def
        EachEntry_def)
  have handle: "r zr \<noteq> None \<longrightarrow>
       GetProcess decp zp zr u \<noteq> Panic \<and> GetProcessData zr u \<noteq> Panic \<and>
       GetFlow dec zr u \<noteq> Panic \<and> GetFlowData zr u \<noteq> Panic \<and>
       GetFlowProperty decq zq zr u \<noteq> Panic \<and> GetFlowPropertyData zr u \<noteq> Panic \<and>
       GetUnitGroupData zr u \<noteq> Panic \<and> GetSource zr u \<noteq> Panic \<and> GetContact zr u \<noteq> Panic \<and>
       EachProcess deca za fna zr sa \<noteq> Panic \<and> EachFlow decb fnb zr sb \<noteq> Panic \<and>
       EachMethod decc zc fnc zr sc \<noteq> Panic \<and> EachFlowProperty decd zd fnd zr sd \<noteq> Panic \<and>
       EachUnitGroup dece ze fne zr se \<noteq> Panic \<and> EachContact decf zf fnf zr sf \<noteq> Panic \<and>
       EachSource decg zg fng zr sg \<noteq> Panic \<and> EachEntry fnh zr sh \<noteq> Panic"
    by (auto simp: GetProcess_def GetProcessData_def GetFlow_def GetFlowData_def
        GetFlowProperty_def GetFlowPropertyData_def GetUnitGroupData_def GetSource_def
        GetContact_def xmlData_def findXML_def EachProcess_def EachFlow_def EachMethod_def
        EachFlowProperty_def EachUnitGroup_def EachContact_def EachSource_def Each_def
        EachEntry_def split: option.splits prod.splits)
  from res failed nil handle show ?thesis by (intro conjI)
qed

theorem NewZipReader_open_error_witness:
  "NewZipReader ex_OpenReader ''missing.zip'' =
     (\<lparr>r = None\<rparr>, Some (IOError ''open: no such file or directory'')) \<and>
   GetFlow sample_Unmarshal \<lparr>r = None\<rparr> ''a1'' = Panic \<and>
   EachFlow sample_Unmarshal count_all \<lparr>r = None\<rparr> 0 = Panic \<and>
   NewZipReader ex_OpenReader ''data.zip'' = (ex_zip, None) \<and>
   r ex_zip \<noteq> None \<and>
   GetFlow sample_Unmarshal ex_zip ''a1'' \<noteq> Panic \<and>
   GetFlow sample_Unmarshal ex_zip ''a1'' = Return (Some (flow_of_doc empty_Flow ''a1''), None)"
proof -
  have failed: "NewZipReader ex_OpenReader ''missing.zip'' =
      (\<lparr>r = None\<rparr>, Some (IOError ''open: no such file or directory''))"
    by (simp add: NewZipReader_def ex_OpenReader_def)
  have nil: "r \<lparr>r = None\<rparr> = None" by simp
  note panics = NewZipReader_open_error [OF failed, THEN conjunct2, THEN conjunct2,
      THEN conjunct2, THEN conjunct1, THEN mp, OF nil]
  have 1: "GetFlow sample_Unmarshal \<lparr>r = None\<rparr> ''a1'' = Panic"
    by (rule panics [THEN conjunct2, THEN conjunct2, THEN conjunct1])
  have 2: "EachFlow sample_Unmarshal count_all \<lparr>r = None\<rparr> 0 = Panic"
    by (rule panics [THEN conjunct2, THEN conjunct2, THEN conjunct2, THEN conjunct2,
          THEN conjunct2, THEN conjunct2, THEN conjunct2, THEN conjunct2, THEN conjunct2,
          THEN conjunct2, THEN conjunct1])
  have opened: "NewZipReader ex_OpenReader ''data.zip'' = (ex_zip, None)"
    by (simp add: NewZipReader_def ex_OpenReader_def ex_zip_def)
  have handle: "r ex_zip \<noteq> None" by (simp add: ex_zip_def)
  have 3: "GetFlow sample_Unmarshal ex_zip ''a1'' \<noteq> Panic"
    by (rule NewZipReader_open_error [OF opened, THEN conjunct2, THEN conjunct2,
          THEN conjunct2, THEN conjunct2, THEN mp, OF handle,
          THEN conjunct2, THEN conjunct2, THEN conjunct1])
  have 4: "GetFlow sample_Unmarshal ex_zip ''a1'' =
      Return (Some (flow_of_doc empty_Flow ''a1''), None)"
    by (simp add: GetFlow_def findXML_def ex_zip_def ex_entries_def HasSuffix_def unmarshal_def
        readData_def sample_a1)
  from failed 1 2 opened handle 3 4 show ?thesis by (intro conjI)
qed

section \<open>Enumeration\<close>








end
